theory Spec2Isabelle
  imports Main "HOL-Library.AList"
begin

section \<open>Errors and API objects\<close>

text \<open>
  A Go \<open>error\<close> is a value. The two sentinel errors of Helm's \<open>repo\<close> package are
  compared by identity in \<open>sync\<close>, so they are constructors of their own; every
  other error is its message (\<open>fmt.Errorf\<close> with \<open>%w\<close> prepends the prefix to
  the message of the wrapped error).
\<close>

datatype error = ErrNoChartName | ErrNoChartVersion | Errorf string

fun Error :: "error \<Rightarrow> string" where
  "Error ErrNoChartName = ''no chart name found''"
| "Error ErrNoChartVersion = ''no chart version found''"
| "Error (Errorf m) = m"

definition quoted :: "string \<Rightarrow> string" where
  \<comment> \<open>\<open>'%s'\<close> in a format string\<close>
  "quoted s = CHR 0x27 # s @ [CHR 0x27]"

text \<open>
  The \<open>sourcev1\<close> API package is not under \<open>src/\<close>. Its string constants (condition
  types and reasons) are constructors here, so that two constants of different names are
  different values; its structs are records with the fields the controllers and the
  tests read and write.
\<close>

datatype ConditionStatus = ConditionTrue | ConditionFalse | ConditionUnknown

datatype ConditionType =
  ReadyCondition | ArtifactOutdatedCondition | ArtifactUnavailableCondition
  | FetchFailedCondition

datatype Reason =
  InitializingReason | URLInvalidReason | StorageOperationFailedReason
  | AuthenticationFailedReason | ChartPullFailedReason | ChartPullSucceededReason
  | FailedReason | SucceededReason | NoArtifactReason | NewRevisionReason

record Condition =
  Type :: ConditionType
  Status :: ConditionStatus
  Reason :: Reason
  Message :: string
  LastTransitionTime :: nat

record Artifact =
  Path :: string
  URL :: string
  Revision :: string
  Checksum :: string
  LastUpdateTime :: nat

text \<open>
  \<open>HelmChartStatus\<close> and \<open>HelmRepositoryStatus\<close> have the same three fields: the
  condition set, the URL of the stable-name link and at most one current artifact.
\<close>

record SourceStatus =
  Status_Conditions :: "Condition list"
  Status_URL :: string
  Status_Artifact :: "Artifact option"

record HelmChart =
  Chart_Kind :: string
  Chart_Namespace :: string
  Chart_Name :: string
  Chart_Spec_Name :: string
  Chart_Spec_Version :: string
  Chart_Spec_HelmRepositoryRef_Name :: string
  Chart_Spec_Interval :: nat
  Chart_Status :: SourceStatus

record HelmRepository =
  Repo_Kind :: string
  Repo_Namespace :: string
  Repo_Name :: string
  Repo_Spec_URL :: string
  Repo_Spec_Interval :: nat
  Repo_Spec_SecretRef :: "string option"
  Repo_Status :: SourceStatus

text \<open>\<open>ctrl.Result\<close> of controller-runtime; the zero value requests nothing.\<close>

record Result =
  Requeue :: bool
  RequeueAfter :: nat

definition Result_zero :: Result where
  "Result_zero = \<lparr>Requeue = False, RequeueAfter = 0\<rparr>"

text \<open>Helm's \<open>repo.ChartVersion\<close> and \<open>repo.IndexFile\<close>, Go's \<open>url.URL\<close>.\<close>

record ChartVersion =
  cv_Name :: string
  cv_Version :: string
  cv_URLs :: "string list"

type_synonym IndexFile = "(string \<times> ChartVersion list) list"

record net_URL =
  Scheme :: string
  url_String :: string

section \<open>The world a reconciliation pass runs in\<close>

text \<open>
  The file system under the storage root, and the trace of the effects of a pass in the
  order they happen: storage operations, the lock and its release, the read of the
  credential secret, the network fetch and the deferred cleanup of the client options.
\<close>

datatype Op = OpReadFile | OpMkdirAll | OpLock | OpWriteFile | OpSymlink | OpRemove

datatype Event =
  EvReadFile string
  | EvMkdirAll string
  | EvLock string
  | EvUnlock string
  | EvWriteFile string
  | EvSymlink string string
  | EvRemove string
  | EvSecretGet string string
  | EvGet string
  | EvCleanup

record World =
  files :: "(string \<times> string) list"
  dirs :: "string set"
  links :: "(string \<times> string) list"
  trace :: "Event list"

record Storage =
  BasePath :: string
  Hostname :: string

type_synonym Response = "error + string"
  \<comment> \<open>what \<open>ioutil.ReadAll\<close> gives on the body of a response\<close>

type_synonym Getter = "string \<Rightarrow> string list \<Rightarrow> error + Response"

type_synonym Secret = "(string \<times> string) list"

text \<open>
  What a pass takes from outside this repository is a parameter: the clock, the outcome of
  each system call (\<open>io_fault\<close> says which storage operation fails on which path, and
  how), the YAML parser, Helm's index lookup, getters and TLS configuration, Go's URL
  parser, the Kubernetes client (the reads of a secret, of a chart and of a repository,
  the update of the status of a chart and the test for a not-found error), the delay
  before a failed fetch is tried again, and the digest function and the secret decoder of
  this repository, whose code is not under \<open>src/\<close>.
\<close>

record Env =
  Storage :: Storage
  Now :: nat
  io_fault :: "Op \<Rightarrow> string \<Rightarrow> error option"
  Storage_Checksum :: "string \<Rightarrow> string"
  yaml_Unmarshal :: "string \<Rightarrow> error + IndexFile"
  Index_Get :: "IndexFile \<Rightarrow> string \<Rightarrow> string \<Rightarrow> error + ChartVersion"
  url_Parse :: "string \<Rightarrow> error + net_URL"
  Getters_ByScheme :: "string \<Rightarrow> error + Getter"
  Client_Get_Secret :: "string \<Rightarrow> string \<Rightarrow> error + Secret"
  ClientOptionsFromSecret :: "Secret \<Rightarrow> error + (string list \<times> bool)"
  TLSConfig :: "string list \<Rightarrow> error option"
  retry_delay :: nat
  Client_Get_HelmChart :: "string \<Rightarrow> string \<Rightarrow> error + HelmChart"
  Client_Get_HelmRepository :: "string \<Rightarrow> string \<Rightarrow> error + HelmRepository"
  Status_Update :: "HelmChart \<Rightarrow> error option"
  IgnoreNotFound :: "error \<Rightarrow> error option"

definition emit :: "Event \<Rightarrow> World \<Rightarrow> World" where
  "emit e w = w\<lparr>trace := trace w @ [e]\<rparr>"

definition emitted :: "World \<Rightarrow> World \<Rightarrow> Event list" where
  \<comment> \<open>the events a step added to the trace\<close>
  "emitted w w' = drop (length (trace w)) (trace w')"

definition ReadFile :: "Env \<Rightarrow> World \<Rightarrow> string \<Rightarrow> World \<times> (error + string)" where
  \<comment> \<open>\<open>ioutil.ReadFile\<close>\<close>
  "ReadFile env w p =
     (let w' = emit (EvReadFile p) w in
      case io_fault env OpReadFile p of
        Some e \<Rightarrow> (w', Inl e)
      | None \<Rightarrow>
          (case map_of (files w) p of
             None \<Rightarrow> (w', Inl (Errorf (''open '' @ p @ '': no such file or directory'')))
           | Some b \<Rightarrow> (w', Inr b)))"

section \<open>The artifact storage engine\<close>

definition dirname :: "string \<Rightarrow> string" where
  \<comment> \<open>the path up to its last separator\<close>
  "dirname p = rev (drop 1 (dropWhile (\<lambda>c. c \<noteq> CHR ''/'') (rev p)))"

definition parent_dirs :: "string \<Rightarrow> string list" where
  "parent_dirs p = map (\<lambda>i. take i p) (filter (\<lambda>i. p ! i = CHR ''/'') [1..<length p])"

definition LocalPath :: "Env \<Rightarrow> Artifact \<Rightarrow> string" where
  \<comment> \<open>Modelled from the spec: \<open>Storage.LocalPath\<close> is not under \<open>src/\<close>; the resolved
      path of an artifact is its storage-relative path under the storage root.\<close>
  "LocalPath env a = BasePath (Storage env) @ Path a"

definition ArtifactFor ::
  "Env \<Rightarrow> string \<Rightarrow> string \<Rightarrow> string \<Rightarrow> string \<Rightarrow> string \<Rightarrow> Artifact" where
  \<comment> \<open>Modelled from the spec: \<open>Storage.ArtifactFor\<close> is not under \<open>src/\<close>; the layout is
      \<open><root>/<kind>/<namespace>/<name>/<filename>\<close> and the public URL is the
      configured hostname followed by the storage-relative path.\<close>
  "ArtifactFor env kind namespace name fileName revision =
     (let p = ''/'' @ kind @ ''/'' @ namespace @ ''/'' @ name @ ''/'' @ fileName in
      \<lparr>Path = p, URL = Hostname (Storage env) @ p, Revision = revision,
       Checksum = '''', LastUpdateTime = Now env\<rparr>)"

definition MkdirAll :: "Env \<Rightarrow> World \<Rightarrow> Artifact \<Rightarrow> World \<times> error option" where
  \<comment> \<open>Modelled from the spec: \<open>Storage.MkdirAll\<close> is not under \<open>src/\<close>; it creates all
      parent directories of the artifact's path, or fails on a disk or permission error.\<close>
  "MkdirAll env w a =
     (let p = LocalPath env a; w' = emit (EvMkdirAll p) w in
      case io_fault env OpMkdirAll p of
        Some e \<Rightarrow> (w', Some e)
      | None \<Rightarrow> (w'\<lparr>dirs := dirs w' \<union> set (parent_dirs p)\<rparr>, None))"

definition Lock :: "Env \<Rightarrow> World \<Rightarrow> Artifact \<Rightarrow> World \<times> error option" where
  \<comment> \<open>Modelled from the spec: \<open>Storage.Lock\<close> is not under \<open>src/\<close>; it acquires the
      exclusive lock scoped to the resolved path. The release function it returns is
      \<open>Unlock\<close>. Waiting for another holder is not modelled: the call returns, with the
      lock or with an error.\<close>
  "Lock env w a =
     (let p = LocalPath env a in
      case io_fault env OpLock p of
        Some e \<Rightarrow> (w, Some e)
      | None \<Rightarrow> (emit (EvLock p) w, None))"

definition Unlock :: "Env \<Rightarrow> World \<Rightarrow> Artifact \<Rightarrow> World" where
  "Unlock env w a = emit (EvUnlock (LocalPath env a)) w"

definition WriteFile :: "Env \<Rightarrow> World \<Rightarrow> Artifact \<Rightarrow> string \<Rightarrow> World \<times> error option" where
  \<comment> \<open>Modelled from the spec: \<open>Storage.WriteFile\<close> is not under \<open>src/\<close>; the write is
      atomic: the file has its old content or the whole new content.\<close>
  "WriteFile env w a b =
     (let p = LocalPath env a; w' = emit (EvWriteFile p) w in
      case io_fault env OpWriteFile p of
        Some e \<Rightarrow> (w', Some e)
      | None \<Rightarrow> (w'\<lparr>files := AList.update p b (files w')\<rparr>, None))"

definition Symlink :: "Env \<Rightarrow> World \<Rightarrow> Artifact \<Rightarrow> string \<Rightarrow> World \<times> (error + string)" where
  \<comment> \<open>Modelled from the spec: \<open>Storage.Symlink\<close> is not under \<open>src/\<close>; it (re)creates the
      link of the given name beside the artifact, pointing at the artifact's resolved
      path, and returns the public URL of the link.\<close>
  "Symlink env w a linkName =
     (let p = LocalPath env a;
          l = dirname p @ ''/'' @ linkName;
          w' = emit (EvSymlink p l) w in
      case io_fault env OpSymlink l of
        Some e \<Rightarrow> (w', Inl e)
      | None \<Rightarrow>
          (w'\<lparr>links := AList.update l p (links w')\<rparr>,
           Inr (Hostname (Storage env) @ dirname (Path a) @ ''/'' @ linkName)))"

definition ArtifactExist :: "Env \<Rightarrow> World \<Rightarrow> Artifact \<Rightarrow> bool" where
  \<comment> \<open>Modelled from the spec: \<open>Storage.ArtifactExist\<close> is not under \<open>src/\<close>; true iff a
      regular file is present at the resolved path.\<close>
  "ArtifactExist env w a = (map_of (files w) (LocalPath env a) \<noteq> None)"

section \<open>The chart controller\<close>

definition HelmChartNotReady :: "Env \<Rightarrow> HelmChart \<Rightarrow> Reason \<Rightarrow> string \<Rightarrow> HelmChart" where
  \<comment> \<open>Modelled from the spec: \<open>sourcev1.HelmChartNotReady\<close> is not under \<open>src/\<close>; a
      failure is one condition with the reason and the message, and the resource keeps
      its current artifact.\<close>
  "HelmChartNotReady env chart reason message =
     chart\<lparr>Chart_Status := (Chart_Status chart)\<lparr>Status_Conditions :=
       [\<lparr>Type = ReadyCondition, Status = ConditionFalse, Reason = reason,
         Message = message, LastTransitionTime = Now env\<rparr>]\<rparr>\<rparr>"

definition HelmChartReady ::
  "Env \<Rightarrow> HelmChart \<Rightarrow> Artifact \<Rightarrow> string \<Rightarrow> Reason \<Rightarrow> string \<Rightarrow> HelmChart" where
  \<comment> \<open>Modelled from the spec: \<open>sourcev1.HelmChartReady\<close> is not under \<open>src/\<close>; the
      current artifact is swapped to the new record and \<open>Ready\<close> is asserted.\<close>
  "HelmChartReady env chart artifact url reason message =
     chart\<lparr>Chart_Status :=
       \<lparr>Status_Conditions =
          [\<lparr>Type = ReadyCondition, Status = ConditionTrue, Reason = reason,
            Message = message, LastTransitionTime = Now env\<rparr>],
        Status_URL = url,
        Status_Artifact = Some artifact\<rparr>\<rparr>"

text \<open>
  \<open>HelmChartReconciler.sync\<close>, in four parts that follow the source from its end: the
  part under the lock (save the artifact, update the link), the part from the checksum to
  the deferred release of the lock, the fetch, and the resolution of the credentials with
  its deferred cleanup. Each returns the world, the chart and the error of \<open>sync\<close>.
\<close>

definition sync_locked ::
  "Env \<Rightarrow> World \<Rightarrow> HelmChart \<Rightarrow> ChartVersion \<Rightarrow> Artifact \<Rightarrow> string
    \<Rightarrow> World \<times> HelmChart \<times> error option" where
  "sync_locked env w chart cv artifact chartBytes =
     (case WriteFile env w artifact chartBytes of
        (w1, Some err) \<Rightarrow>
          (let err' = Errorf (''unable to write chart file: '' @ Error err) in
           (w1, HelmChartNotReady env chart ChartPullFailedReason (Error err'), Some err'))
      | (w1, None) \<Rightarrow>
          (case Symlink env w1 artifact (cv_Name cv @ ''-latest.tgz'') of
             (w2, Inl err) \<Rightarrow>
               (let err' = Errorf (''storage error: '' @ Error err) in
                (w2, HelmChartNotReady env chart StorageOperationFailedReason (Error err'),
                 Some err'))
           | (w2, Inr chartUrl) \<Rightarrow>
               (let message = ''Helm chart is available at: '' @ Path artifact in
                (w2, HelmChartReady env chart artifact chartUrl ChartPullSucceededReason
                       message, None))))"

definition chart_artifact :: "Env \<Rightarrow> HelmChart \<Rightarrow> ChartVersion \<Rightarrow> string \<Rightarrow> Artifact" where
  \<comment> \<open>lines 212 to 214\<close>
  "chart_artifact env chart cv chartBytes =
     (let sum = Storage_Checksum env chartBytes in
      ArtifactFor env (Chart_Kind chart) (Chart_Namespace chart) (Chart_Name chart)
        (cv_Name cv @ ''-'' @ cv_Version cv @ ''-'' @ sum @ ''.tgz'') (cv_Version cv))"

definition sync_store ::
  "Env \<Rightarrow> World \<Rightarrow> HelmChart \<Rightarrow> ChartVersion \<Rightarrow> string
    \<Rightarrow> World \<times> HelmChart \<times> error option" where
  "sync_store env w chart cv chartBytes =
     (let artifact = chart_artifact env chart cv chartBytes in
      case MkdirAll env w artifact of
        (w1, Some err) \<Rightarrow>
          (let err' = Errorf (''unable to create chart directory: '' @ Error err) in
           (w1, HelmChartNotReady env chart ChartPullFailedReason (Error err'), Some err'))
      | (w1, None) \<Rightarrow>
          (case Lock env w1 artifact of
             (w2, Some err) \<Rightarrow>
               (let err' = Errorf (''unable to acquire lock: '' @ Error err) in
                (w2, HelmChartNotReady env chart ChartPullFailedReason (Error err'),
                 Some err'))
           | (w2, None) \<Rightarrow>
               (case sync_locked env w2 chart cv artifact chartBytes of
                  (w3, chart', err) \<Rightarrow> (Unlock env w3 artifact, chart', err))))"

definition sync_get ::
  "Env \<Rightarrow> World \<Rightarrow> HelmChart \<Rightarrow> ChartVersion \<Rightarrow> net_URL \<Rightarrow> Getter \<Rightarrow> string list
    \<Rightarrow> World \<times> HelmChart \<times> error option" where
  "sync_get env w chart cv u c clientOpts =
     (let w1 = emit (EvGet (url_String u)) w in
      case c (url_String u) clientOpts of
        Inl err \<Rightarrow> (w1, HelmChartNotReady env chart ChartPullFailedReason (Error err), Some err)
      | Inr res \<Rightarrow>
          (case res of
             Inl err \<Rightarrow>
               (w1, HelmChartNotReady env chart ChartPullFailedReason (Error err), Some err)
           | Inr chartBytes \<Rightarrow> sync_store env w1 chart cv chartBytes))"

definition sync_auth ::
  "Env \<Rightarrow> World \<Rightarrow> HelmRepository \<Rightarrow> HelmChart \<Rightarrow> ChartVersion \<Rightarrow> net_URL \<Rightarrow> Getter
    \<Rightarrow> World \<times> HelmChart \<times> error option" where
  "sync_auth env w repository chart cv u c =
     (case Repo_Spec_SecretRef repository of
        None \<Rightarrow> sync_get env w chart cv u c []
      | Some name \<Rightarrow>
          (let w1 = emit (EvSecretGet (Repo_Namespace repository) name) w in
           case Client_Get_Secret env (Repo_Namespace repository) name of
             Inl err \<Rightarrow>
               (let err' = Errorf (''auth secret error: '' @ Error err) in
                (w1, HelmChartNotReady env chart AuthenticationFailedReason (Error err'),
                 Some err'))
           | Inr secret \<Rightarrow>
               (case ClientOptionsFromSecret env secret of
                  Inl err \<Rightarrow>
                    (let err' = Errorf (''auth options error: '' @ Error err) in
                     (w1, HelmChartNotReady env chart AuthenticationFailedReason (Error err'),
                      Some err'))
                | Inr (opts, cleanup) \<Rightarrow>
                    (case sync_get env w1 chart cv u c opts of
                       (w2, chart', err) \<Rightarrow>
                         ((if cleanup then emit EvCleanup w2 else w2), chart', err)))))"

definition index_error :: "HelmRepository \<Rightarrow> HelmChart \<Rightarrow> error \<Rightarrow> error" where
  \<comment> \<open>the \<open>switch err\<close> of lines 147 to 152\<close>
  "index_error repository chart err =
     (case err of
        ErrNoChartName \<Rightarrow>
          Errorf (''chart '' @ quoted (Chart_Spec_Name chart)
                  @ '' could not be found in Helm repository ''
                  @ quoted (Repo_Name repository))
      | ErrNoChartVersion \<Rightarrow>
          Errorf (''no chart with version '' @ quoted (Chart_Spec_Version chart)
                  @ '' found for '' @ quoted (Chart_Spec_Name chart))
      | Errorf m \<Rightarrow> err)"

definition sync ::
  "Env \<Rightarrow> World \<Rightarrow> HelmRepository \<Rightarrow> HelmChart
    \<Rightarrow> (World \<times> HelmChart \<times> error option) option" where
  \<comment> \<open>\<open>None\<close>: the dereference of a nil \<open>repository.Status.Artifact\<close> panics\<close>
  "sync env w repository chart =
     (case Status_Artifact (Repo_Status repository) of
        None \<Rightarrow> None
      | Some ra \<Rightarrow> Some
          (case ReadFile env w (Path ra) of
             (w1, Inl err) \<Rightarrow>
               (let err' = Errorf (''failed to read Helm repository index file: ''
                                   @ Error err) in
                (w1, HelmChartNotReady env chart StorageOperationFailedReason (Error err'),
                 Some err'))
           | (w1, Inr indexBytes) \<Rightarrow>
               (case yaml_Unmarshal env indexBytes of
                  Inl err \<Rightarrow>
                    (w1, HelmChartNotReady env chart StorageOperationFailedReason (Error err),
                     Some err)
                | Inr index \<Rightarrow>
                    (case Index_Get env index (Chart_Spec_Name chart)
                            (Chart_Spec_Version chart) of
                       Inl err \<Rightarrow>
                         (let err' = index_error repository chart err in
                          (w1, HelmChartNotReady env chart ChartPullFailedReason (Error err'),
                           Some err'))
                     | Inr cv \<Rightarrow>
                         (case cv_URLs cv of
                            [] \<Rightarrow>
                              (let err' = Errorf (''chart '' @ quoted (cv_Name cv)
                                                  @ '' has no downloadable URLs'') in
                               (w1, HelmChartNotReady env chart ChartPullFailedReason
                                      (Error err'), Some err'))
                          | ref # _ \<Rightarrow>
                              (case url_Parse env ref of
                                 Inl err \<Rightarrow>
                                   (let err' = Errorf (''invalid chart URL format ''
                                                       @ quoted ref @ '': '' @ Error err) in
                                    (w1, HelmChartNotReady env chart ChartPullFailedReason
                                           (Error err'), Some err'))
                               | Inr u \<Rightarrow>
                                   (case Getters_ByScheme env (Scheme u) of
                                      Inl err \<Rightarrow>
                                        (w1, HelmChartNotReady env chart
                                               ChartPullFailedReason (Error err), Some err)
                                    | Inr c \<Rightarrow>
                                        sync_auth env w1 repository chart cv u c)))))))"

definition SetArtifactURL :: "Env \<Rightarrow> Artifact \<Rightarrow> Artifact" where
  \<comment> \<open>Modelled from the spec: \<open>Storage.SetArtifactURL\<close> is not under \<open>src/\<close>; the URL
      is derived anew from the configured host and the artifact's path.\<close>
  "SetArtifactURL env a = a\<lparr>URL := Hostname (Storage env) @ Path a\<rparr>"

definition in_dir :: "string \<Rightarrow> string \<Rightarrow> bool" where
  \<comment> \<open>the path lies under the directory, at any depth\<close>
  "in_dir d p = (d = dirname p \<or> d \<in> set (parent_dirs p))"

definition dir_files :: "World \<Rightarrow> string \<Rightarrow> string list" where
  \<comment> \<open>the regular files under a directory\<close>
  "dir_files w d = filter (in_dir d) (map fst (files w))"

definition RemoveAllButCurrent :: "Env \<Rightarrow> World \<Rightarrow> Artifact \<Rightarrow> World \<times> error option" where
  \<comment> \<open>Modelled from the spec: \<open>Storage.RemoveAllButCurrent\<close> is not under \<open>src/\<close>; it
      deletes every file under the directory that holds the artifact except the file backing
      the artifact. Only the files that are there are removed, so an absent sibling is
      no error; a removal that the system refuses is one.\<close>
  "RemoveAllButCurrent env w a =
     (let p = LocalPath env a;
          siblings = filter (\<lambda>q. q \<noteq> p) (dir_files w (dirname p));
          refused = filter (\<lambda>q. io_fault env OpRemove q \<noteq> None) siblings;
          removed = filter (\<lambda>q. io_fault env OpRemove q = None) siblings;
          w' = w\<lparr>files := filter (\<lambda>(q, _). q \<notin> set removed) (files w),
                 trace := trace w @ map EvRemove siblings\<rparr>
      in (w', if refused = [] then None
              else Some (Errorf (''failed to remove files: '' @ concat refused))))"

subsection \<open>Traces and the lock\<close>

text \<open>
  \<open>under_lock step held evs\<close> replays a trace: \<open>held\<close> is the list of the paths whose
  lock is held, and every event that \<open>step\<close> maps to a path must find the lock of that
  path held. \<open>held_after\<close> gives the locks still held at the end.
\<close>

fun under_lock :: "(Event \<Rightarrow> string option) \<Rightarrow> string list \<Rightarrow> Event list \<Rightarrow> bool" where
  "under_lock step held [] = True"
| "under_lock step held (EvLock p # evs) = under_lock step (p # held) evs"
| "under_lock step held (EvUnlock p # evs) = under_lock step (removeAll p held) evs"
| "under_lock step held (ev # evs) =
     ((case step ev of None \<Rightarrow> True | Some p \<Rightarrow> p \<in> set held) \<and> under_lock step held evs)"

fun held_after :: "string list \<Rightarrow> Event list \<Rightarrow> string list" where
  "held_after held [] = held"
| "held_after held (EvLock p # evs) = held_after (p # held) evs"
| "held_after held (EvUnlock p # evs) = held_after (removeAll p held) evs"
| "held_after held (ev # evs) = held_after held evs"


fun write_step :: "Event \<Rightarrow> string option" where
  "write_step (EvWriteFile p) = Some p"
| "write_step (EvSymlink p l) = Some p"
| "write_step ev = None"

fun mkdir_step :: "Event \<Rightarrow> string option" where
  "mkdir_step (EvMkdirAll p) = Some p"
| "mkdir_step ev = None"

fun step_fault :: "Env \<Rightarrow> Event \<Rightarrow> error option" where
  \<comment> \<open>the failure, if any, of the persistence step an event stands for\<close>
  "step_fault env (EvMkdirAll p) = io_fault env OpMkdirAll p"
| "step_fault env (EvWriteFile p) = io_fault env OpWriteFile p"
| "step_fault env (EvSymlink p l) = io_fault env OpSymlink l"
| "step_fault env ev = None"

definition persist_failed :: "Env \<Rightarrow> Event list \<Rightarrow> bool" where
  "persist_failed env evs = list_ex (\<lambda>ev. step_fault env ev \<noteq> None) evs"

fun is_EvSymlink :: "Event \<Rightarrow> bool" where
  "is_EvSymlink (EvSymlink p l) = True"
| "is_EvSymlink ev = False"

fun is_EvGet :: "Event \<Rightarrow> bool" where
  "is_EvGet (EvGet u) = True"
| "is_EvGet ev = False"





subsection \<open>Status reset and garbage collection\<close>


definition gc :: "Env \<Rightarrow> World \<Rightarrow> HelmChart \<Rightarrow> World \<times> error option" where
  "gc env w chart =
     (case Status_Artifact (Chart_Status chart) of
        Some a \<Rightarrow> RemoveAllButCurrent env w a
      | None \<Rightarrow> (w, None))"

subsection \<open>The reconciliation pass of a chart\<close>





section \<open>The repository controller\<close>

text \<open>
  \<open>HelmRepositoryReconciler\<close> is not under \<open>src/\<close>; the test of its three phases is.
  The phases are modelled from section 4.2 of the specification, with the condition
  types, reasons and messages the test expects. The condition set is the ordered
  sequence of section 9: an assertion replaces the condition of its type in place or is
  appended, and a condition is removed by type.
\<close>

fun upsert_condition :: "Condition \<Rightarrow> Condition list \<Rightarrow> Condition list" where
  "upsert_condition c [] = [c]"
| "upsert_condition c (d # ds) =
     (if Type d = Type c then c # ds else d # upsert_condition c ds)"

definition MarkTrue ::
  "Env \<Rightarrow> HelmRepository \<Rightarrow> ConditionType \<Rightarrow> Reason \<Rightarrow> string \<Rightarrow> HelmRepository" where
  \<comment> \<open>Modelled from the spec: \<open>conditions.MarkTrue\<close> is not under \<open>src/\<close>.\<close>
  "MarkTrue env obj t reason message =
     obj\<lparr>Repo_Status := (Repo_Status obj)\<lparr>Status_Conditions :=
       upsert_condition
         \<lparr>Type = t, Status = ConditionTrue, Reason = reason, Message = message,
          LastTransitionTime = Now env\<rparr>
         (Status_Conditions (Repo_Status obj))\<rparr>\<rparr>"

definition Delete :: "HelmRepository \<Rightarrow> ConditionType \<Rightarrow> HelmRepository" where
  \<comment> \<open>Modelled from the spec: \<open>conditions.Delete\<close> is not under \<open>src/\<close>.\<close>
  "Delete obj t =
     obj\<lparr>Repo_Status := (Repo_Status obj)\<lparr>Status_Conditions :=
       filter (\<lambda>c. Type c \<noteq> t) (Status_Conditions (Repo_Status obj))\<rparr>\<rparr>"

definition IsTrue :: "HelmRepository \<Rightarrow> ConditionType \<Rightarrow> bool" where
  \<comment> \<open>Modelled from the spec: \<open>conditions.IsTrue\<close> is not under \<open>src/\<close>.\<close>
  "IsTrue obj t =
     list_ex (\<lambda>c. Type c = t \<and> Status c = ConditionTrue) (Status_Conditions (Repo_Status obj))"

definition SetArtifact :: "HelmRepository \<Rightarrow> Artifact option \<Rightarrow> HelmRepository" where
  \<comment> \<open>Modelled from the spec: the current artifact of the status is set or cleared.\<close>
  "SetArtifact obj a = obj\<lparr>Repo_Status := (Repo_Status obj)\<lparr>Status_Artifact := a\<rparr>\<rparr>"

definition reconcileStorage ::
  "Env \<Rightarrow> World \<Rightarrow> HelmRepository \<Rightarrow> World \<times> HelmRepository \<times> Result \<times> error option" where
  \<comment> \<open>Modelled from the spec: \<open>HelmRepositoryReconciler.reconcileStorage\<close> is not under
      \<open>src/\<close>. Step 1 of section 4.2: a recorded artifact with no backing file asserts
      \<open>ArtifactUnavailable\<close>, is cleared, and an immediate retry is requested; for an
      artifact that exists the superseded files are collected (a failure of that is
      swallowed) and the URL is derived anew, with no fetch and no write of the file.\<close>
  "reconcileStorage env w obj =
     (case Status_Artifact (Repo_Status obj) of
        None \<Rightarrow> (w, obj, Result_zero, None)
      | Some a \<Rightarrow>
          if \<not> ArtifactExist env w a then
            (w,
             SetArtifact
               (MarkTrue env obj ArtifactUnavailableCondition NoArtifactReason
                  ''No artifact for resource in storage'') None,
             \<lparr>Requeue = True, RequeueAfter = 0\<rparr>, None)
          else
            (case RemoveAllButCurrent env w a of
               (w1, err) \<Rightarrow>
                 (w1, SetArtifact obj (Some (SetArtifactURL env a)), Result_zero, None)))"

record ChartRepository =
  cr_Index :: "IndexFile option"
  cr_Bytes :: string
  cr_Checksum :: string

definition resolve_options ::
  "Env \<Rightarrow> World \<Rightarrow> HelmRepository \<Rightarrow> World \<times> (Reason \<times> error + string list)" where
  \<comment> \<open>Modelled from the spec: the resolution of the connection options (credentials, TLS
      material) by the credential resolver, from the secret the resource refers to. A
      secret that is missing or malformed is an authentication failure; CA material of
      which no TLS configuration can be made is reported with the general reason, as the
      test of \<open>reconcileSource\<close> expects. Either way the error is returned.\<close>
  "resolve_options env w obj =
     (case Repo_Spec_SecretRef obj of
        None \<Rightarrow> (w, Inr [])
      | Some name \<Rightarrow>
          (let w1 = emit (EvSecretGet (Repo_Namespace obj) name) w in
           case Client_Get_Secret env (Repo_Namespace obj) name of
             Inl err \<Rightarrow> (w1, Inl (AuthenticationFailedReason, err))
           | Inr secret \<Rightarrow>
               (case ClientOptionsFromSecret env secret of
                  Inl err \<Rightarrow> (w1, Inl (AuthenticationFailedReason, err))
                | Inr (opts, cleanup) \<Rightarrow>
                    (case TLSConfig env opts of
                       Some err \<Rightarrow> (w1, Inl (FailedReason, err))
                     | None \<Rightarrow> (w1, Inr opts)))))"

definition up_to_date :: "HelmRepository \<Rightarrow> Artifact \<Rightarrow> bool" where
  \<comment> \<open>step 3: the candidate's checksum is that of the current artifact\<close>
  "up_to_date obj artifact =
     (case Status_Artifact (Repo_Status obj) of
        None \<Rightarrow> False
      | Some cur \<Rightarrow> Checksum cur = Checksum artifact)"

definition reconcileSource ::
  "Env \<Rightarrow> World \<Rightarrow> HelmRepository
    \<Rightarrow> World \<times> HelmRepository \<times> Result \<times> error option \<times> (Artifact \<times> ChartRepository) option"
  where
  \<comment> \<open>Modelled from the spec: \<open>HelmRepositoryReconciler.reconcileSource\<close> is not under
      \<open>src/\<close>. Step 2 of section 4.2: a failure to resolve the connection options asserts
      \<open>FetchFailed\<close> with the reason of the failure, returns the error and stops; a
      malformed URL or an unsupported scheme asserts \<open>FetchFailed\<close> and yields the zero
      result and no error; a transport failure asserts \<open>FetchFailed\<close> and yields a retry
      after the short fixed delay. Success gives the candidate artifact and index, and
      asserts \<open>ArtifactOutdated\<close> when the candidate is not the current artifact.\<close>
  "reconcileSource env w obj =
     (case resolve_options env w obj of
        (w1, Inl (reason, err)) \<Rightarrow>
          (w1, MarkTrue env obj FetchFailedCondition reason (Error err),
           Result_zero, Some err, None)
      | (w1, Inr opts) \<Rightarrow>
          (case url_Parse env (Repo_Spec_URL obj) of
             Inl err \<Rightarrow>
               (w1, MarkTrue env obj FetchFailedCondition URLInvalidReason (Error err),
                Result_zero, None, None)
           | Inr u \<Rightarrow>
               (case Getters_ByScheme env (Scheme u) of
                  Inl err \<Rightarrow>
                    (w1, MarkTrue env obj FetchFailedCondition FailedReason (Error err),
                     Result_zero, None, None)
                | Inr c \<Rightarrow>
                    (let w2 = emit (EvGet (url_String u)) w1 in
                     case (case c (url_String u) opts of Inl err \<Rightarrow> Inl err | Inr res \<Rightarrow> res) of
                       Inl err \<Rightarrow>
                         (w2, MarkTrue env obj FetchFailedCondition FailedReason (Error err),
                          \<lparr>Requeue = True, RequeueAfter = retry_delay env\<rparr>, None, None)
                     | Inr indexBytes \<Rightarrow>
                         (let sum = Storage_Checksum env indexBytes;
                              artifact =
                                (ArtifactFor env (Repo_Kind obj) (Repo_Namespace obj)
                                   (Repo_Name obj) (''index-'' @ sum @ ''.yaml'') sum)
                                \<lparr>Checksum := sum\<rparr>;
                              index =
                                \<lparr>cr_Index =
                                   (case yaml_Unmarshal env indexBytes of
                                      Inl err \<Rightarrow> None
                                    | Inr i \<Rightarrow> Some i),
                                 cr_Bytes = indexBytes, cr_Checksum = sum\<rparr>;
                              obj1 = Delete obj FetchFailedCondition;
                              obj2 =
                                (if up_to_date obj1 artifact then obj1
                                 else MarkTrue env obj1 ArtifactOutdatedCondition
                                        NewRevisionReason ''New index revision'')
                          in (w2, obj2,
                              \<lparr>Requeue = False, RequeueAfter = Repo_Spec_Interval obj\<rparr>, None,
                              Some (artifact, index)))))))"




section \<open>Test data\<close>

text \<open>
  A repository \<open>charts\<close> whose index lists \<open>podinfo\<close> 1.0.0, a chart that asks for it
  and records the artifact of an older pull, of which the storage has no file, and an
  environment in which every call succeeds. The digest of the test environment is a
  stand-in that keeps the bytes.
\<close>

definition index_ok :: IndexFile where
  "index_ok =
     [(''podinfo'',
       [\<lparr>cv_Name = ''podinfo'', cv_Version = ''1.0.0'',
         cv_URLs = [''http://charts.example.com/podinfo-1.0.0.tgz'']\<rparr>])]"

definition world_ok :: World where
  "world_ok =
     \<lparr>files = [(''/data/helmrepository/default/charts/index.yaml'', ''index'')],
      dirs = {}, links = [], trace = []\<rparr>"

definition artifact_index :: Artifact where
  "artifact_index =
     \<lparr>Path = ''/data/helmrepository/default/charts/index.yaml'',
      URL = ''http://source/helmrepository/default/charts/index.yaml'',
      Revision = ''r1'', Checksum = ''index'', LastUpdateTime = 1\<rparr>"

definition artifact_old :: Artifact where
  "artifact_old =
     \<lparr>Path = ''/helmchart/default/podinfo/podinfo-0.9.0-old.tgz'',
      URL = ''http://source/helmchart/default/podinfo/podinfo-0.9.0-old.tgz'',
      Revision = ''0.9.0'', Checksum = [], LastUpdateTime = 1\<rparr>"

definition repository_ok :: HelmRepository where
  "repository_ok =
     \<lparr>Repo_Kind = ''helmrepository'', Repo_Namespace = ''default'', Repo_Name = ''charts'',
      Repo_Spec_URL = ''http://charts.example.com'', Repo_Spec_Interval = 60,
      Repo_Spec_SecretRef = None,
      Repo_Status =
        \<lparr>Status_Conditions = [], Status_URL = [], Status_Artifact = Some artifact_index\<rparr>\<rparr>"

definition chart_ok :: HelmChart where
  "chart_ok =
     \<lparr>Chart_Kind = ''helmchart'', Chart_Namespace = ''default'', Chart_Name = ''podinfo'',
      Chart_Spec_Name = ''podinfo'', Chart_Spec_Version = ''1.0.0'',
      Chart_Spec_HelmRepositoryRef_Name = ''charts'', Chart_Spec_Interval = 60,
      Chart_Status =
        \<lparr>Status_Conditions =
           [\<lparr>Type = ReadyCondition, Status = ConditionTrue,
             Reason = ChartPullSucceededReason,
             Message = ''Helm chart is available at: '' @ Path artifact_old,
             LastTransitionTime = 1\<rparr>],
         Status_URL = ''http://source/helmchart/default/podinfo/podinfo-latest.tgz'',
         Status_Artifact = Some artifact_old\<rparr>\<rparr>"

text \<open>
  The storage of the test of \<open>reconcileStorage\<close>: three revisions of one resource, of
  which \<open>c\<close> is the current one and has a URL of a former host, and a file of another
  resource.
\<close>

definition world_storage :: World where
  "world_storage =
     \<lparr>files =
        [(''/data/reconcile-storage/a.txt'', ''a''),
         (''/data/reconcile-storage/b.txt'', ''b''),
         (''/data/reconcile-storage/c.txt'', ''c''),
         (''/data/other/x.txt'', ''x'')],
      dirs = {''/data'', ''/data/reconcile-storage'', ''/data/other''},
      links = [], trace = []\<rparr>"

definition artifact_c :: Artifact where
  "artifact_c =
     \<lparr>Path = ''/reconcile-storage/c.txt'',
      URL = ''http://outdated.com/reconcile-storage/c.txt'',
      Revision = ''c'', Checksum = ''2e7d2c03'', LastUpdateTime = 1\<rparr>"

definition artifact_invalid :: Artifact where
  "artifact_invalid =
     \<lparr>Path = ''/reconcile-storage/invalid.txt'',
      URL = ''http://source/reconcile-storage/invalid.txt'',
      Revision = ''d'', Checksum = [], LastUpdateTime = 1\<rparr>"

definition with_artifact :: "HelmRepository \<Rightarrow> Artifact \<Rightarrow> HelmRepository" where
  "with_artifact obj a = obj\<lparr>Repo_Status := (Repo_Status obj)\<lparr>Status_Artifact := Some a\<rparr>\<rparr>"


definition env_ok :: Env where
  "env_ok =
     \<lparr>Storage = \<lparr>BasePath = ''/data'', Hostname = ''http://source''\<rparr>,
      Now = 42,
      io_fault = (\<lambda>op p. None),
      Storage_Checksum = (\<lambda>b. b),
      yaml_Unmarshal =
        (\<lambda>b. if b = ''index'' then Inr index_ok else Inl (Errorf ''yaml: bad document'')),
      Index_Get =
        (\<lambda>index name version.
           case map_of index name of
             None \<Rightarrow> Inl ErrNoChartName
           | Some vs \<Rightarrow>
               (case filter (\<lambda>c. cv_Version c = version) vs of
                  [] \<Rightarrow> Inl ErrNoChartVersion
                | c # cs \<Rightarrow> Inr c)),
      url_Parse =
        (\<lambda>s. if s = [] then Inl (Errorf ''empty url'')
             else Inr \<lparr>Scheme = takeWhile (\<lambda>c. c \<noteq> CHR '':'') s, url_String = s\<rparr>),
      Getters_ByScheme =
        (\<lambda>s. if s = ''http'' then Inr (\<lambda>u opts. Inr (Inr ''chart-bytes''))
             else Inl (Errorf ''scheme not supported'')),
      Client_Get_Secret = (\<lambda>ns name. Inl (Errorf ''secret not found'')),
      ClientOptionsFromSecret = (\<lambda>secret. Inr ([], False)),
      TLSConfig = (\<lambda>opts. None),
      retry_delay = 5,
      Client_Get_HelmChart =
        (\<lambda>namespace name.
           if namespace = ''default'' \<and> name = ''podinfo'' then Inr chart_ok
           else Inl (Errorf ''helmchart not found'')),
      Client_Get_HelmRepository =
        (\<lambda>namespace name.
           if namespace = ''default'' \<and> name = ''charts'' then Inr repository_ok
           else Inl (Errorf ''helmrepository not found'')),
      Status_Update = (\<lambda>chart. None),
      IgnoreNotFound = (\<lambda>err. None)\<rparr>"

definition env_offline :: Env where
  \<comment> \<open>the test environment with every fetch failing in the transport\<close>
  "env_offline =
     env_ok\<lparr>Getters_ByScheme :=
       (\<lambda>s. Inr (\<lambda>u opts. Inl (Errorf ''connection refused'')))\<rparr>"



definition env_fault :: "Op \<Rightarrow> Env" where
  \<comment> \<open>the test environment with every call of one storage operation failing\<close>
  "env_fault op =
     env_ok\<lparr>io_fault := (\<lambda>op' p. if op' = op then Some (Errorf ''permission denied'')
                                  else None)\<rparr>"

section \<open>Properties of the chart controller\<close>

subsection \<open>Auxiliary facts\<close>

lemmas store_defs = sync_store_def sync_locked_def
  MkdirAll_def Lock_def Unlock_def WriteFile_def Symlink_def emit_def

lemmas fixture_defs = env_ok_def env_fault_def world_ok_def repository_ok_def chart_ok_def
  artifact_index_def artifact_old_def index_ok_def

lemma persist_failed_simps:
  "persist_failed env [] = False"
  "persist_failed env (ev # evs) = (step_fault env ev \<noteq> None \<or> persist_failed env evs)"
  "persist_failed env (xs @ ys) = (persist_failed env xs \<or> persist_failed env ys)"
  by (simp_all add: persist_failed_def)

lemma NotReady_keeps_artifact:
  "Status_Artifact (Chart_Status (HelmChartNotReady env chart reason message))
     = Status_Artifact (Chart_Status chart)"
  by (simp add: HelmChartNotReady_def)



text \<open>
  What the part of \<open>sync\<close> from the checksum on (lines 212 to 246) adds to the trace: if
  a step of the persistence sequence failed, the error and the reason it is reported with;
  the write and the link are made with the lock held, the directory is made without it,
  and no lock is held at the end.
\<close>

lemma sync_store_events:
  assumes "sync_store env w chart cv chartBytes = (w', chart', err)"
  shows "\<exists>evs. trace w' = trace w @ evs
          \<and> (persist_failed env evs \<longrightarrow>
                (\<exists>e. err = Some e
                   \<and> chart' = HelmChartNotReady env chart
                        (if list_ex is_EvSymlink evs then StorageOperationFailedReason
                         else ChartPullFailedReason) (Error e)))
          \<and> under_lock write_step [] evs \<and> held_after [] evs = []
          \<and> \<not> under_lock mkdir_step [] evs"
proof -
  let ?a = "chart_artifact env chart cv chartBytes"
  let ?p = "LocalPath env ?a"
  let ?l = "dirname ?p @ ''/'' @ cv_Name cv @ ''-latest.tgz''"
  note defs = store_defs persist_failed_def Let_def
  show ?thesis
  proof (cases "io_fault env OpMkdirAll ?p")
    case (Some e)
    with assms show ?thesis by (auto simp: defs)
  next
    case mk: None
    show ?thesis
    proof (cases "io_fault env OpLock ?p")
      case (Some e)
      with assms mk show ?thesis by (auto simp: defs)
    next
      case lk: None
      show ?thesis
      proof (cases "io_fault env OpWriteFile ?p")
        case (Some e)
        with assms mk lk show ?thesis by (auto simp: defs)
      next
        case wr: None
        show ?thesis
        proof (cases "io_fault env OpSymlink ?l")
          case (Some e)
          with assms mk lk wr show ?thesis by (auto simp: defs)
        next
          case None
          with assms mk lk wr show ?thesis by (auto simp: defs)
        qed
      qed
    qed
  qed
qed

subsection \<open>Failure of the persistence sequence\<close>

text \<open>
  C1, as stated, at a concrete pass: the write of the chart file is refused. The pass
  reports the failure with the reason \<open>ChartPullFailedReason\<close>, not with the
  storage-operation reason.
\<close>

theorem sync_write_failure_reason:
  "persist_failed (env_fault OpWriteFile)
     (emitted world_ok
        (fst (the (sync (env_fault OpWriteFile) world_ok repository_ok chart_ok))))
   \<and> map Reason (Status_Conditions (Chart_Status
        (fst (snd (the (sync (env_fault OpWriteFile) world_ok repository_ok chart_ok))))))
     = [ChartPullFailedReason]"
  by code_simp

text \<open>
  C1, amended: for every pass of \<open>sync\<close>, if a step of the persistence sequence (ensure
  directory, atomic write, symlink publication) fails, the pass returns an error and
  reports the failure as the one condition of the chart, with the message of that error;
  the reason is the storage-operation reason when the symlink publication failed and the
  chart-pull-failed reason when the directory or the write failed; the status keeps its
  previous current artifact unchanged.
\<close>

theorem sync_persistence_failure:
  assumes "sync env w repository chart = Some (w', chart', err)"
    and "persist_failed env (emitted w w')"
  shows "\<exists>e. err = Some e
          \<and> chart' = HelmChartNotReady env chart
                (if list_ex is_EvSymlink (emitted w w') then StorageOperationFailedReason
                 else ChartPullFailedReason) (Error e)
          \<and> Status_Artifact (Chart_Status chart') = Status_Artifact (Chart_Status chart)"
  using assms
  by (auto simp: sync_def sync_auth_def sync_get_def ReadFile_def emit_def emitted_def Let_def
        persist_failed_simps NotReady_keeps_artifact
      dest!: sync_store_events
      split: option.splits sum.splits list.splits prod.splits if_splits)

theorem sync_persistence_failure_witness:
  "persist_failed (env_fault OpSymlink)
     (emitted world_ok
        (fst (the (sync (env_fault OpSymlink) world_ok repository_ok chart_ok))))
   \<and> (\<exists>e. snd (snd (the (sync (env_fault OpSymlink) world_ok repository_ok chart_ok)))
            = Some e
         \<and> fst (snd (the (sync (env_fault OpSymlink) world_ok repository_ok chart_ok)))
            = HelmChartNotReady (env_fault OpSymlink) chart_ok
                StorageOperationFailedReason (Error e)
         \<and> Status_Artifact (Chart_Status
              (fst (snd (the (sync (env_fault OpSymlink) world_ok repository_ok chart_ok)))))
            = Some artifact_old)"
proof -
  let ?env = "env_fault OpSymlink"
  let ?r = "the (sync ?env world_ok repository_ok chart_ok)"
  have run: "sync ?env world_ok repository_ok chart_ok
               = Some (fst ?r, fst (snd ?r), snd (snd ?r))"
    by (simp add: sync_def repository_ok_def)
  have failed: "persist_failed ?env (emitted world_ok (fst ?r))"
    by code_simp
  have link: "list_ex is_EvSymlink (emitted world_ok (fst ?r))"
    by code_simp
  have old: "Status_Artifact (Chart_Status chart_ok) = Some artifact_old"
    by (simp add: chart_ok_def)
  from sync_persistence_failure [OF run failed] link old failed
  show ?thesis by simp
qed

subsection \<open>The lock\<close>




subsection \<open>An index without the chart\<close>

text \<open>
  C9: for every repository index that was read and parsed and in which the chart cannot
  be resolved (the lookup fails) or is resolved to an entry with no downloadable URL,
  \<open>sync\<close> fails fast: it returns an error, reported with the chart-pull-failed reason,
  and the only effect of the pass is the read of the index: no file, link or directory
  of the storage is written.
\<close>

theorem sync_empty_index:
  assumes "Status_Artifact (Repo_Status repository) = Some ra"
    and "io_fault env OpReadFile (Path ra) = None"
    and "map_of (files w) (Path ra) = Some indexBytes"
    and "yaml_Unmarshal env indexBytes = Inr index"
    and "(\<exists>e. Index_Get env index (Chart_Spec_Name chart) (Chart_Spec_Version chart) = Inl e)
         \<or> (\<exists>cv. Index_Get env index (Chart_Spec_Name chart) (Chart_Spec_Version chart)
                    = Inr cv \<and> cv_URLs cv = [])"
  shows "\<exists>w' err.
           sync env w repository chart
             = Some (w', HelmChartNotReady env chart ChartPullFailedReason (Error err),
                     Some err)
           \<and> files w' = files w \<and> links w' = links w \<and> dirs w' = dirs w
           \<and> emitted w w' = [EvReadFile (Path ra)]"
  using assms
  by (auto simp: sync_def ReadFile_def emit_def emitted_def Let_def)

theorem sync_empty_index_witness:
  "(\<exists>e. Index_Get env_ok index_ok ''nginx'' ''1.0.0'' = Inl e)
   \<and> (\<exists>w' err.
         sync env_ok world_ok repository_ok (chart_ok\<lparr>Chart_Spec_Name := ''nginx''\<rparr>)
           = Some (w', HelmChartNotReady env_ok (chart_ok\<lparr>Chart_Spec_Name := ''nginx''\<rparr>)
                         ChartPullFailedReason (Error err), Some err)
         \<and> files w' = files world_ok
         \<and> emitted world_ok w' = [EvReadFile (Path artifact_index)])"
proof -
  let ?chart = "chart_ok\<lparr>Chart_Spec_Name := ''nginx''\<rparr>"
  have artifact: "Status_Artifact (Repo_Status repository_ok) = Some artifact_index"
    by (simp add: repository_ok_def)
  have readable: "io_fault env_ok OpReadFile (Path artifact_index) = None"
    by (simp add: env_ok_def)
  have present: "map_of (files world_ok) (Path artifact_index) = Some ''index''"
    by (simp add: world_ok_def artifact_index_def)
  have parsed: "yaml_Unmarshal env_ok ''index'' = Inr index_ok"
    by (simp add: env_ok_def)
  have lookup: "Index_Get env_ok index_ok ''nginx'' ''1.0.0'' = Inl ErrNoChartName"
    by (simp add: env_ok_def index_ok_def)
  have name: "Chart_Spec_Name ?chart = ''nginx''" "Chart_Spec_Version ?chart = ''1.0.0''"
    by (simp_all add: chart_ok_def)
  have missing:
    "(\<exists>e. Index_Get env_ok index_ok (Chart_Spec_Name ?chart) (Chart_Spec_Version ?chart)
            = Inl e)
     \<or> (\<exists>cv. Index_Get env_ok index_ok (Chart_Spec_Name ?chart) (Chart_Spec_Version ?chart)
               = Inr cv \<and> cv_URLs cv = [])"
    using lookup name by simp
  from sync_empty_index [OF artifact readable present parsed missing] lookup
  show ?thesis by blast
qed

subsection \<open>The name of the chart file\<close>






section \<open>Properties of the storage check\<close>

lemma upsert_condition_True:
  "Status c = ConditionTrue \<Longrightarrow>
     list_ex (\<lambda>d. Type d = Type c \<and> Status d = ConditionTrue) (upsert_condition c cs)"
  by (induction cs) auto

lemma IsTrue_MarkTrue: "IsTrue (MarkTrue env obj t reason message) t"
  using upsert_condition_True
    [of "\<lparr>Type = t, Status = ConditionTrue, Reason = reason, Message = message,
          LastTransitionTime = Now env\<rparr>" "Status_Conditions (Repo_Status obj)"]
  by (simp add: IsTrue_def MarkTrue_def)



lemma map_of_filter_keep:
  "(\<And>v. P (k, v)) \<Longrightarrow> map_of (filter P xs) k = map_of xs k"
  by (induction xs) auto



lemma no_fetch_in_removals: "\<not> list_ex is_EvGet (map EvRemove qs)"
  by (induction qs) simp_all

subsection \<open>A recorded artifact without its file\<close>












subsection \<open>Garbage collection\<close>



subsection \<open>An artifact with the URL of a former host\<close>

text \<open>
  C6: for every repository whose recorded artifact has its file, the storage check leaves
  in the status the same artifact with only its URL rewritten, to the URL that the
  configured host gives for its path; the path, the revision, the checksum and the time
  of the record are unchanged, the backing file keeps its bytes, the conditions are
  unchanged, nothing is fetched and no error is returned. The only effects on the
  storage are the removals of the garbage collection.
\<close>

theorem reconcileStorage_rewrites_url:
  assumes "Status_Artifact (Repo_Status obj) = Some a"
    and "ArtifactExist env w a"
    and "reconcileStorage env w obj = (w', obj', res, err)"
  shows "Status_Artifact (Repo_Status obj') = Some (a\<lparr>URL := Hostname (Storage env) @ Path a\<rparr>)
         \<and> Status_Conditions (Repo_Status obj') = Status_Conditions (Repo_Status obj)
         \<and> map_of (files w') (LocalPath env a) = map_of (files w) (LocalPath env a)
         \<and> links w' = links w \<and> dirs w' = dirs w
         \<and> \<not> list_ex is_EvGet (emitted w w')
         \<and> res = Result_zero \<and> err = None"
proof -
  let ?p = "LocalPath env a"
  obtain w1 e where gc: "RemoveAllButCurrent env w a = (w1, e)"
    by (cases "RemoveAllButCurrent env w a")
  have out: "w' = w1" "obj' = SetArtifact obj (Some (SetArtifactURL env a))"
    "res = Result_zero" "err = None"
    using assms gc by (simp_all add: reconcileStorage_def)
  let ?siblings = "filter (\<lambda>q. q \<noteq> ?p) (dir_files w (dirname ?p))"
  let ?removed = "filter (\<lambda>q. io_fault env OpRemove q = None) ?siblings"
  have w1: "w1 = w\<lparr>files := filter (\<lambda>(q, b). q \<notin> set ?removed) (files w),
                     trace := trace w @ map EvRemove ?siblings\<rparr>"
    using gc unfolding RemoveAllButCurrent_def Let_def by (simp only: prod.inject)
  have "map_of (files w1) ?p = map_of (files w) ?p"
    unfolding w1 by (simp add: map_of_filter_keep)
  moreover have "emitted w w1 = map EvRemove ?siblings"
    unfolding w1 by (simp add: emitted_def)
  moreover have "links w1 = links w" "dirs w1 = dirs w"
    unfolding w1 by simp_all
  ultimately show ?thesis
    using out by (simp add: SetArtifact_def SetArtifactURL_def no_fetch_in_removals)
qed

theorem reconcileStorage_rewrites_url_witness:
  "ArtifactExist env_ok world_storage artifact_c
   \<and> URL artifact_c \<noteq> Hostname (Storage env_ok) @ Path artifact_c
   \<and> Status_Artifact (Repo_Status
        (fst (snd (reconcileStorage env_ok world_storage
                     (with_artifact repository_ok artifact_c)))))
      = Some (artifact_c\<lparr>URL := ''http://source/reconcile-storage/c.txt''\<rparr>)
   \<and> map_of (files (fst (reconcileStorage env_ok world_storage
                           (with_artifact repository_ok artifact_c))))
        ''/data/reconcile-storage/c.txt''
      = Some ''c''"
proof -
  let ?obj = "with_artifact repository_ok artifact_c"
  let ?r = "reconcileStorage env_ok world_storage ?obj"
  have current: "Status_Artifact (Repo_Status ?obj) = Some artifact_c"
    by (simp add: with_artifact_def)
  have present: "ArtifactExist env_ok world_storage artifact_c"
    by code_simp
  have run: "?r = (fst ?r, fst (snd ?r), fst (snd (snd ?r)), snd (snd (snd ?r)))"
    by simp
  have outdated: "URL artifact_c \<noteq> Hostname (Storage env_ok) @ Path artifact_c"
    by code_simp
  have url: "Hostname (Storage env_ok) @ Path artifact_c
               = ''http://source/reconcile-storage/c.txt''"
    by code_simp
  have path: "LocalPath env_ok artifact_c = ''/data/reconcile-storage/c.txt''"
    by code_simp
  have bytes: "map_of (files world_storage) ''/data/reconcile-storage/c.txt'' = Some ''c''"
    by code_simp
  from reconcileStorage_rewrites_url [OF current present run] present outdated url path bytes
  show ?thesis by simp
qed

section \<open>Properties of the fetch and of the persistence of a repository\<close>

subsection \<open>A fetch that fails\<close>

text \<open>
  C7: for every pass of \<open>reconcileSource\<close> in which the connection options were
  resolved: if the remote URL is malformed, \<open>FetchFailed\<close> is asserted with the
  invalid-URL reason, and if its scheme is not supported, \<open>FetchFailed\<close> is asserted
  with the general failure reason and the message of the getter lookup; in both cases
  the pass returns no error and the zero result (no requeue, no delay) and fetches
  nothing. If the fetch itself fails in the transport, \<open>FetchFailed\<close> is asserted and
  the pass requests a retry after the fixed delay of the environment.
\<close>

theorem reconcileSource_failures:
  assumes "resolve_options env w obj = (w1, Inr opts)"
    and "reconcileSource env w obj = (w', obj', res, err, candidate)"
  shows "(\<forall>e. url_Parse env (Repo_Spec_URL obj) = Inl e \<longrightarrow>
            obj' = MarkTrue env obj FetchFailedCondition URLInvalidReason (Error e)
            \<and> IsTrue obj' FetchFailedCondition
            \<and> res = Result_zero \<and> err = None \<and> candidate = None
            \<and> \<not> list_ex is_EvGet (emitted w1 w'))
         \<and> (\<forall>u e. url_Parse env (Repo_Spec_URL obj) = Inr u
                   \<and> Getters_ByScheme env (Scheme u) = Inl e \<longrightarrow>
            obj' = MarkTrue env obj FetchFailedCondition FailedReason (Error e)
            \<and> IsTrue obj' FetchFailedCondition
            \<and> res = Result_zero \<and> err = None \<and> candidate = None
            \<and> \<not> list_ex is_EvGet (emitted w1 w'))
         \<and> (\<forall>u c e. url_Parse env (Repo_Spec_URL obj) = Inr u
                     \<and> Getters_ByScheme env (Scheme u) = Inr c
                     \<and> (c (url_String u) opts = Inl e \<or> c (url_String u) opts = Inr (Inl e))
                     \<longrightarrow>
            obj' = MarkTrue env obj FetchFailedCondition FailedReason (Error e)
            \<and> IsTrue obj' FetchFailedCondition
            \<and> res = \<lparr>Requeue = True, RequeueAfter = retry_delay env\<rparr>
            \<and> err = None \<and> candidate = None)"
  using assms
  by (auto simp: reconcileSource_def Let_def IsTrue_MarkTrue emitted_def)

theorem reconcileSource_failures_witness:
  "fst (snd (reconcileSource env_ok world_ok (repository_ok\<lparr>Repo_Spec_URL := []\<rparr>)))
     = MarkTrue env_ok (repository_ok\<lparr>Repo_Spec_URL := []\<rparr>) FetchFailedCondition
         URLInvalidReason ''empty url''
   \<and> fst (snd (snd (reconcileSource env_ok world_ok (repository_ok\<lparr>Repo_Spec_URL := []\<rparr>))))
     = Result_zero
   \<and> fst (snd (reconcileSource env_ok world_ok
                  (repository_ok\<lparr>Repo_Spec_URL := ''ftp://charts.example.com''\<rparr>)))
     = MarkTrue env_ok (repository_ok\<lparr>Repo_Spec_URL := ''ftp://charts.example.com''\<rparr>)
         FetchFailedCondition FailedReason ''scheme not supported''
   \<and> fst (snd (snd (reconcileSource env_ok world_ok
                       (repository_ok\<lparr>Repo_Spec_URL := ''ftp://charts.example.com''\<rparr>))))
     = Result_zero
   \<and> fst (snd (reconcileSource env_offline world_ok repository_ok))
     = MarkTrue env_offline repository_ok FetchFailedCondition FailedReason
         ''connection refused''
   \<and> fst (snd (snd (reconcileSource env_offline world_ok repository_ok)))
     = \<lparr>Requeue = True, RequeueAfter = 5\<rparr>"
proof -
  let ?bad = "repository_ok\<lparr>Repo_Spec_URL := []\<rparr>"
  let ?ftp = "repository_ok\<lparr>Repo_Spec_URL := ''ftp://charts.example.com''\<rparr>"
  let ?r1 = "reconcileSource env_ok world_ok ?bad"
  let ?r2 = "reconcileSource env_ok world_ok ?ftp"
  let ?r3 = "reconcileSource env_offline world_ok repository_ok"
  let ?u = "\<lparr>Scheme = ''ftp'', url_String = ''ftp://charts.example.com''\<rparr>"
  let ?v = "\<lparr>Scheme = ''http'', url_String = ''http://charts.example.com''\<rparr>"
  let ?c = "\<lambda>(u :: string) (opts :: string list).
              (Inl (Errorf ''connection refused'') :: error + Response)"
  have o1: "resolve_options env_ok world_ok ?bad = (world_ok, Inr [])"
    by (simp add: resolve_options_def repository_ok_def)
  have o2: "resolve_options env_ok world_ok ?ftp = (world_ok, Inr [])"
    by (simp add: resolve_options_def repository_ok_def)
  have o3: "resolve_options env_offline world_ok repository_ok = (world_ok, Inr [])"
    by (simp add: resolve_options_def repository_ok_def)
  have run1: "?r1 = (fst ?r1, fst (snd ?r1), fst (snd (snd ?r1)), fst (snd (snd (snd ?r1))),
                     snd (snd (snd (snd ?r1))))"
    by simp
  have run2: "?r2 = (fst ?r2, fst (snd ?r2), fst (snd (snd ?r2)), fst (snd (snd (snd ?r2))),
                     snd (snd (snd (snd ?r2))))"
    by simp
  have run3: "?r3 = (fst ?r3, fst (snd ?r3), fst (snd (snd ?r3)), fst (snd (snd (snd ?r3))),
                     snd (snd (snd (snd ?r3))))"
    by simp
  have malformed: "url_Parse env_ok (Repo_Spec_URL ?bad) = Inl (Errorf ''empty url'')"
    by (simp add: env_ok_def)
  have parsed2: "url_Parse env_ok (Repo_Spec_URL ?ftp) = Inr ?u"
    by (simp add: env_ok_def)
  have unsupported: "Getters_ByScheme env_ok (Scheme ?u) = Inl (Errorf ''scheme not supported'')"
    by (simp add: env_ok_def)
  have parsed3: "url_Parse env_offline (Repo_Spec_URL repository_ok) = Inr ?v"
    by (simp add: env_offline_def env_ok_def repository_ok_def)
  have getter: "Getters_ByScheme env_offline (Scheme ?v) = Inr ?c"
    by (simp add: env_offline_def)
  have refused: "?c (url_String ?v) [] = Inl (Errorf ''connection refused'')"
    by simp
  have delay: "retry_delay env_offline = 5"
    by (simp add: env_offline_def env_ok_def)
  from reconcileSource_failures [OF o1 run1] malformed
  have first: "fst (snd ?r1) = MarkTrue env_ok ?bad FetchFailedCondition URLInvalidReason
                                 ''empty url''
               \<and> fst (snd (snd ?r1)) = Result_zero"
    by simp
  from reconcileSource_failures [OF o2 run2] parsed2 unsupported
  have second: "fst (snd ?r2) = MarkTrue env_ok ?ftp FetchFailedCondition FailedReason
                                  ''scheme not supported''
                \<and> fst (snd (snd ?r2)) = Result_zero"
    by simp
  from reconcileSource_failures [OF o3 run3] parsed3 getter refused delay
  have third: "fst (snd ?r3) = MarkTrue env_offline repository_ok FetchFailedCondition
                                 FailedReason ''connection refused''
               \<and> fst (snd (snd ?r3)) = \<lparr>Requeue = True, RequeueAfter = 5\<rparr>"
    by simp
  from first second third show ?thesis by simp
qed

subsection \<open>A candidate that is the current artifact\<close>



section \<open>Failure to resolve the credentials\<close>




end
